theory Spec2Isabelle
  imports Complex_Main
begin

section \<open>Values of the Python program\<close>

text \<open>
  The bot works on decoded JSON. A decoded value is \<open>None\<close>, a \<open>bool\<close>, an unbounded
  \<open>int\<close>, a \<open>float\<close>, a \<open>str\<close>, a \<open>list\<close> or a \<open>dict\<close> with string keys. A dict is kept
  as an association list in which the first binding of a key is the one that counts.

  A float is a rational or one of the three special values; arithmetic on finite floats is
  exact here (no rounding, no overflow to infinity), while the special values keep the
  behaviour the control flow depends on: every comparison with \<open>nan\<close> is false.
\<close>

datatype pyfloat = Fin rat | PInf | NInf | NaN

datatype json =
    JNull
  | JBool bool
  | JInt int
  | JFloat pyfloat
  | JStr string
  | JList "json list"
  | JDict "(string \<times> json) list"

text \<open>The exception classes that the program can meet; all of them derive from \<open>Exception\<close>.\<close>

datatype exn =
    TypeError
  | ValueError
  | AttributeError
  | OverflowError
  | HTTPError
  | RequestException
  | OtherError

text \<open>
  Three operations of the Python runtime are parameters of the model: \<open>float(s)\<close> on a
  string (\<open>None\<close> stands for \<open>ValueError\<close>), the format specification \<open>.nf\<close> on a float, and
  \<open>str(v)\<close> on a value that is not a string.
\<close>

record builtins =
  str_float :: "string \<Rightarrow> pyfloat option"
  fmt_fixed :: "nat \<Rightarrow> pyfloat \<Rightarrow> string"
  str_other :: "json \<Rightarrow> string"

subsection \<open>Float operations\<close>

fun float_lt :: "pyfloat \<Rightarrow> pyfloat \<Rightarrow> bool" where
  "float_lt NaN _ = False"
| "float_lt _ NaN = False"
| "float_lt (Fin a) (Fin b) = (a < b)"
| "float_lt (Fin a) PInf = True"
| "float_lt (Fin a) NInf = False"
| "float_lt PInf _ = False"
| "float_lt NInf NInf = False"
| "float_lt NInf _ = True"

definition float_gt :: "pyfloat \<Rightarrow> pyfloat \<Rightarrow> bool" where
  "float_gt a b = float_lt b a"

fun float_neg :: "pyfloat \<Rightarrow> pyfloat" where
  "float_neg (Fin a) = Fin (- a)"
| "float_neg PInf = NInf"
| "float_neg NInf = PInf"
| "float_neg NaN = NaN"

fun float_abs :: "pyfloat \<Rightarrow> pyfloat" where
  "float_abs (Fin a) = Fin \<bar>a\<bar>"
| "float_abs PInf = PInf"
| "float_abs NInf = PInf"
| "float_abs NaN = NaN"

fun float_add :: "pyfloat \<Rightarrow> pyfloat \<Rightarrow> pyfloat" where
  "float_add NaN _ = NaN"
| "float_add _ NaN = NaN"
| "float_add (Fin a) (Fin b) = Fin (a + b)"
| "float_add (Fin a) PInf = PInf"
| "float_add (Fin a) NInf = NInf"
| "float_add PInf NInf = NaN"
| "float_add PInf _ = PInf"
| "float_add NInf PInf = NaN"
| "float_add NInf _ = NInf"

definition float_sub :: "pyfloat \<Rightarrow> pyfloat \<Rightarrow> pyfloat" where
  "float_sub a b = float_add a (float_neg b)"

text \<open>Division and multiplication by a positive integer constant of the source.\<close>

fun float_div_const :: "pyfloat \<Rightarrow> rat \<Rightarrow> pyfloat" where
  "float_div_const (Fin a) c = Fin (a / c)"
| "float_div_const x c = x"

fun float_mul_const :: "pyfloat \<Rightarrow> rat \<Rightarrow> pyfloat" where
  "float_mul_const (Fin a) c = Fin (a * c)"
| "float_mul_const x c = x"

text \<open>
  \<open>max(a, b)\<close> keeps \<open>a\<close> unless \<open>b > a\<close>, and \<open>min(a, b)\<close> keeps \<open>a\<close> unless \<open>b < a\<close>.
\<close>

definition py_max :: "pyfloat \<Rightarrow> pyfloat \<Rightarrow> pyfloat" where
  "py_max a b = (if float_gt b a then b else a)"

definition py_min :: "pyfloat \<Rightarrow> pyfloat \<Rightarrow> pyfloat" where
  "py_min a b = (if float_lt b a then b else a)"

subsection \<open>Dynamic operations on values\<close>

definition isinstance_dict :: "json \<Rightarrow> bool" where
  "isinstance_dict v = (case v of JDict _ \<Rightarrow> True | _ \<Rightarrow> False)"

text \<open>Truth value of a value, as \<open>not v\<close> and \<open>if v\<close> use it.\<close>

fun truthy :: "json \<Rightarrow> bool" where
  "truthy JNull = False"
| "truthy (JBool b) = b"
| "truthy (JInt i) = (i \<noteq> 0)"
| "truthy (JFloat f) = (f \<noteq> Fin 0)"
| "truthy (JStr s) = (s \<noteq> [])"
| "truthy (JList xs) = (xs \<noteq> [])"
| "truthy (JDict kvs) = (kvs \<noteq> [])"

text \<open>\<open>d.get(k, default)\<close> on a dict.\<close>

definition dict_get :: "(string \<times> json) list \<Rightarrow> string \<Rightarrow> json \<Rightarrow> json" where
  "dict_get d k dflt = (case map_of d k of None \<Rightarrow> dflt | Some v \<Rightarrow> v)"

text \<open>\<open>v.get(k, default)\<close> on any value: only a dict has the attribute \<open>get\<close>.\<close>

definition py_get :: "json \<Rightarrow> string \<Rightarrow> json \<Rightarrow> exn + json" where
  "py_get v k dflt = (case v of JDict d \<Rightarrow> Inr (dict_get d k dflt) | _ \<Rightarrow> Inl AttributeError)"

text \<open>
  \<open>float(v)\<close>. An integer that rounds to a magnitude beyond the largest double raises
  \<open>OverflowError\<close>; \<open>None\<close>, lists and dicts raise \<open>TypeError\<close>; a string that is no float
  literal raises \<open>ValueError\<close>.
\<close>

definition FLOAT_OVERFLOW :: int where
  "FLOAT_OVERFLOW = 2 ^ 1024 - 2 ^ 970"

definition py_float :: "builtins \<Rightarrow> json \<Rightarrow> exn + pyfloat" where
  "py_float B v =
     (case v of
        JNull \<Rightarrow> Inl TypeError
      | JBool b \<Rightarrow> Inr (Fin (if b then 1 else 0))
      | JInt i \<Rightarrow> (if FLOAT_OVERFLOW \<le> \<bar>i\<bar> then Inl OverflowError else Inr (Fin (of_int i)))
      | JFloat f \<Rightarrow> Inr f
      | JStr s \<Rightarrow> (case str_float B s of None \<Rightarrow> Inl ValueError | Some f \<Rightarrow> Inr f)
      | JList _ \<Rightarrow> Inl TypeError
      | JDict _ \<Rightarrow> Inl TypeError)"

text \<open>\<open>str(v)\<close>, as an f-string applies it to an interpolated value.\<close>

definition py_str :: "builtins \<Rightarrow> json \<Rightarrow> string" where
  "py_str B v = (case v of JStr s \<Rightarrow> s | _ \<Rightarrow> str_other B v)"

section \<open>Pair selector\<close>

text \<open>
  The liquidity of a mapping-like entry, as the body of the loop computes it: a
  \<open>liquidity\<close> that is no dict is replaced by the empty dict.
\<close>

definition entry_liquidity :: "builtins \<Rightarrow> (string \<times> json) list \<Rightarrow> exn + pyfloat" where
  "entry_liquidity B d =
     (let liquidity_data = dict_get d ''liquidity'' (JDict []);
          liquidity_data = (case liquidity_data of JDict ld \<Rightarrow> ld | _ \<Rightarrow> [])
      in py_float B (dict_get liquidity_data ''usd'' (JInt 0)))"

text \<open>
  The loop of \<open>get_main_pair\<close> over \<open>pairs\<close>, with the loop variables \<open>main_pair\<close> and
  \<open>max_liquidity\<close> as accumulator. The inner \<open>try\<close> catches \<open>TypeError\<close> and \<open>ValueError\<close>
  only; any other exception leaves the loop.
\<close>

fun scan_pairs ::
  "builtins \<Rightarrow> json list \<Rightarrow> json option \<Rightarrow> pyfloat \<Rightarrow> exn + (json option \<times> pyfloat)" where
  "scan_pairs B [] main_pair max_liquidity = Inr (main_pair, max_liquidity)"
| "scan_pairs B (pair # rest) main_pair max_liquidity =
     (case pair of
        JDict d \<Rightarrow>
          (case entry_liquidity B d of
             Inl e \<Rightarrow>
               (if e = TypeError \<or> e = ValueError
                then scan_pairs B rest main_pair max_liquidity
                else Inl e)
           | Inr liquidity \<Rightarrow>
               (if float_gt liquidity max_liquidity
                then scan_pairs B rest (Some pair) liquidity
                else scan_pairs B rest main_pair max_liquidity))
      | _ \<Rightarrow> scan_pairs B rest main_pair max_liquidity)"

text \<open>\<open>not main_pair\<close> for the loop variable, which is \<open>None\<close> or a pair.\<close>

definition not_pair :: "json option \<Rightarrow> bool" where
  "not_pair p = (case p of None \<Rightarrow> True | Some v \<Rightarrow> \<not> truthy v)"

definition get_main_pair :: "builtins \<Rightarrow> json \<Rightarrow> json option" where
  "get_main_pair B token_data =
     (case token_data of
        JDict td \<Rightarrow>
          (let pairs = dict_get td ''pairs'' (JList []);
               pairs = (case pairs of
                          JList ps \<Rightarrow> ps
                        | _ \<Rightarrow> (case token_data of JList ts \<Rightarrow> ts | _ \<Rightarrow> [token_data]))
           in if pairs = [] then None
              else case scan_pairs B pairs None (Fin 0) of
                     Inl e \<Rightarrow> None
                   | Inr (main_pair, max_liquidity) \<Rightarrow>
                       (let main_pair =
                              (if not_pair main_pair \<and> pairs \<noteq> []
                               then (if isinstance_dict (hd pairs) then Some (hd pairs) else None)
                               else main_pair)
                        in if not_pair main_pair then None else main_pair))
      | _ \<Rightarrow> None)"

section \<open>Risk calculator\<close>

record risk =
  liquidity :: pyfloat
  volume_24h :: pyfloat
  price_change_24h :: pyfloat
  risk_score :: pyfloat
  risk_percentage :: pyfloat

text \<open>\<open>float(pair.get(outer, {}).get(inner, 0))\<close> for a dict \<open>pair\<close>.\<close>

definition float_field :: "builtins \<Rightarrow> (string \<times> json) list \<Rightarrow> string \<Rightarrow> string \<Rightarrow> exn + pyfloat" where
  "float_field B d outer inner =
     (case py_get (dict_get d outer (JDict [])) inner (JInt 0) of
        Inl e \<Rightarrow> Inl e
      | Inr v \<Rightarrow> py_float B v)"

definition calculate_investment_risk :: "builtins \<Rightarrow> json \<Rightarrow> risk option" where
  "calculate_investment_risk B pair =
     (case pair of
        JDict d \<Rightarrow>
          (case float_field B d ''liquidity'' ''usd'' of
             Inl e \<Rightarrow> None
           | Inr liq \<Rightarrow>
          (case float_field B d ''volume'' ''h24'' of
             Inl e \<Rightarrow> None
           | Inr vol \<Rightarrow>
          (case float_field B d ''priceChange'' ''h24'' of
             Inl e \<Rightarrow> None
           | Inr pc \<Rightarrow>
               (let score = float_add (float_sub (float_div_const liq 10000)
                                                 (float_div_const vol 100000))
                                      (float_div_const (float_abs pc) 10);
                    percentage = py_min (Fin 100) (py_max (Fin 0) (float_mul_const score 10))
                in Some \<lparr> liquidity = liq, volume_24h = vol, price_change_24h = pc,
                          risk_score = score, risk_percentage = percentage \<rparr>))))
      | _ \<Rightarrow> None)"

section \<open>Message formatter\<close>

text \<open>
  Strings are byte strings: a character outside ASCII is written as the bytes of its
  UTF-8 encoding. The emptiness of a string does not depend on the encoding.
\<close>

definition apostrophe :: string where "apostrophe = [CHR 0x27]"
definition newline :: string where "newline = [CHR 0x0A]"
definition c_cedilla :: string where "c_cedilla = [CHR 0xC3, CHR 0xA7]"
definition a_tilde :: string where "a_tilde = [CHR 0xC3, CHR 0xA3]"
definition a_acute :: string where "a_acute = [CHR 0xC3, CHR 0xA1]"
definition o_tilde :: string where "o_tilde = [CHR 0xC3, CHR 0xB5]"
definition i_acute :: string where "i_acute = [CHR 0xC3, CHR 0xAD]"
definition emoji_check :: string where "emoji_check = [CHR 0xE2, CHR 0x9C, CHR 0x85]"
definition emoji_bird :: string where "emoji_bird = [CHR 0xF0, CHR 0x9F, CHR 0x90, CHR 0xA6]"
definition emoji_speaker :: string where "emoji_speaker = [CHR 0xF0, CHR 0x9F, CHR 0x93, CHR 0xA2]"
definition emoji_globe :: string where "emoji_globe = [CHR 0xF0, CHR 0x9F, CHR 0x8C, CHR 0x90]"
definition emoji_link :: string where "emoji_link = [CHR 0xF0, CHR 0x9F, CHR 0x94, CHR 0x97]"
definition emoji_chart :: string where "emoji_chart = [CHR 0xF0, CHR 0x9F, CHR 0x93, CHR 0x8A]"
definition emoji_glass :: string where "emoji_glass = [CHR 0xF0, CHR 0x9F, CHR 0x94, CHR 0x8D]"
definition emoji_id :: string where "emoji_id = [CHR 0xF0, CHR 0x9F, CHR 0x86, CHR 0x94]"

definition MSG_INVALID_TOKEN :: string where
  "MSG_INVALID_TOKEN = ''Informa'' @ c_cedilla @ o_tilde @ ''es do token inv'' @ a_acute @ ''lidas''"

definition MSG_NO_PAIR :: string where
  "MSG_NO_PAIR = ''Dados do par n'' @ a_tilde @ ''o dispon'' @ i_acute @ ''veis''"

definition MSG_RISK_ERROR :: string where
  "MSG_RISK_ERROR = ''Erro ao calcular risco''"

text \<open>The body of the loop over \<open>links\<close>: what one link adds to \<open>links_formatted\<close>.\<close>

definition format_link :: "builtins \<Rightarrow> json \<Rightarrow> string" where
  "format_link B link =
     (case link of
        JDict l \<Rightarrow>
          (if dict_get l ''type'' JNull = JStr ''twitter''
           then emoji_bird @ '' <a href='' @ apostrophe @ py_str B (dict_get l ''url'' (JStr []))
                  @ apostrophe @ ''>Twitter</a> | ''
           else if dict_get l ''type'' JNull = JStr ''telegram''
           then emoji_speaker @ '' <a href='' @ apostrophe @ py_str B (dict_get l ''url'' (JStr []))
                  @ apostrophe @ ''>Telegram</a> | ''
           else if truthy (dict_get l ''url'' JNull)
           then emoji_globe @ '' <a href='' @ apostrophe @ py_str B (dict_get l ''url'' (JStr []))
                  @ apostrophe @ ''>Site</a> | ''
           else [])
      | _ \<Rightarrow> [])"

definition format_message :: "builtins \<Rightarrow> (string \<times> json) list \<Rightarrow> json \<Rightarrow> string \<Rightarrow> risk \<Rightarrow> string" where
  "format_message B token_profile token_address links_formatted risk_data =
     (let gecko_link = ''https://www.geckoterminal.com/solana/pools/'' @ py_str B token_address
      in ''<b>'' @ emoji_check @ '' Novo Token Detectado!</b>'' @ newline @ newline
       @ ''<b>Liquidez:</b> '' @ fmt_fixed B 1 (float_div_const (liquidity risk_data) 1000) @ ''K'' @ newline
       @ ''<b>Volume 24h:</b> '' @ fmt_fixed B 1 (float_div_const (volume_24h risk_data) 1000) @ ''K'' @ newline
       @ ''<b>Mudan'' @ c_cedilla @ ''a de Pre'' @ c_cedilla @ ''o 24h:</b> ''
       @ fmt_fixed B 2 (price_change_24h risk_data) @ ''%'' @ newline @ newline
       @ ''<b>C'' @ a_acute @ ''lculo de Risco:</b> ('' @ fmt_fixed B 2 (liquidity risk_data)
       @ '' / 10,000) - '' @ fmt_fixed B 2 (volume_24h risk_data)
       @ '' / 100,000) + (|'' @ fmt_fixed B 2 (price_change_24h risk_data)
       @ ''| / 10) = '' @ fmt_fixed B 2 (risk_score risk_data) @ newline
       @ ''<b>Porcentagem de Risco:</b> '' @ fmt_fixed B 0 (risk_percentage risk_data) @ ''%''
       @ newline @ newline
       @ ''<b>'' @ emoji_link @ '' Links:</b> '' @ links_formatted @ newline
       @ ''<b>'' @ emoji_chart @ '' Gr'' @ a_acute @ ''fico:</b> <a href='' @ apostrophe @ gecko_link
       @ apostrophe @ ''>GeckoTerminal</a>'' @ newline
       @ ''<b>'' @ emoji_glass @ '' DexScreener:</b> <a href='' @ apostrophe
       @ py_str B (dict_get token_profile ''url'' (JStr [])) @ apostrophe @ ''>Abrir</a>'' @ newline
       @ ''<b>'' @ emoji_id @ '' Address:</b> <code>'' @ py_str B token_address @ ''</code>'')"

definition generate_token_info :: "builtins \<Rightarrow> json \<Rightarrow> json \<Rightarrow> string \<times> json option" where
  "generate_token_info B token_profile token_data =
     (case token_profile of
        JDict tp \<Rightarrow>
          (if \<not> isinstance_dict token_data then (MSG_INVALID_TOKEN, None)
           else
             (let token_address = dict_get tp ''tokenAddress'' (JStr ''Desconhecido'');
                  links = dict_get tp ''links'' (JList []);
                  links_formatted =
                    (case links of JList ls \<Rightarrow> concat (map (format_link B) ls) | _ \<Rightarrow> [])
              in case get_main_pair B token_data of
                   None \<Rightarrow> (MSG_NO_PAIR, None)
                 | Some pair \<Rightarrow>
                     (if \<not> truthy pair then (MSG_NO_PAIR, None)
                      else case calculate_investment_risk B pair of
                             None \<Rightarrow> (MSG_RISK_ERROR, None)
                           | Some risk_data \<Rightarrow>
                               (format_message B tp token_address links_formatted risk_data,
                                Some pair))))
      | _ \<Rightarrow> (MSG_INVALID_TOKEN, None))"

section \<open>Chart renderer\<close>

fun float_le :: "pyfloat \<Rightarrow> pyfloat \<Rightarrow> bool" where
  "float_le NaN _ = False"
| "float_le _ NaN = False"
| "float_le (Fin a) (Fin b) = (a \<le> b)"
| "float_le (Fin a) PInf = True"
| "float_le (Fin a) NInf = False"
| "float_le PInf PInf = True"
| "float_le PInf _ = False"
| "float_le NInf _ = True"

definition float_ge :: "pyfloat \<Rightarrow> pyfloat \<Rightarrow> bool" where
  "float_ge a b = float_le b a"

definition time_frames :: "string list" where
  "time_frames = [''m5'', ''h1'', ''h6'', ''h24'']"

definition labels :: "string list" where
  "labels = [''5 min'', ''1 hora'', ''6 horas'', ''24 horas'']"

text \<open>
  The loop over \<open>time_frames\<close> with the lists \<open>price_changes\<close> and \<open>volumes\<close> as
  accumulators. Both conversions of a window are in one \<open>try\<close>: a \<open>TypeError\<close> or
  \<open>ValueError\<close> from either of them appends 0 to both lists; any other exception leaves
  the loop.
\<close>

fun window_values ::
  "builtins \<Rightarrow> (string \<times> json) list \<Rightarrow> string list \<Rightarrow> pyfloat list \<Rightarrow> pyfloat list
     \<Rightarrow> exn + (pyfloat list \<times> pyfloat list)" where
  "window_values B pair [] price_changes volumes = Inr (price_changes, volumes)"
| "window_values B pair (tf # tfs) price_changes volumes =
     (case (case float_field B pair ''priceChange'' tf of
              Inl e \<Rightarrow> Inl e
            | Inr price_change \<Rightarrow>
                (case float_field B pair ''volume'' tf of
                   Inl e \<Rightarrow> Inl e
                 | Inr volume \<Rightarrow> Inr (price_change, volume))) of
        Inr (price_change, volume) \<Rightarrow>
          window_values B pair tfs (price_changes @ [price_change]) (volumes @ [volume])
      | Inl e \<Rightarrow>
          (if e = TypeError \<or> e = ValueError
           then window_values B pair tfs (price_changes @ [Fin 0]) (volumes @ [Fin 0])
           else Inl e))"

text \<open>
  The figure that is written to the image buffer: the two traces with their x values,
  y values, colours and texts, and the title. The PNG encoding is not modelled; the
  buffer is the figure it encodes.
\<close>

record chart =
  chart_title :: string
  bar_x :: "string list"
  bar_y :: "pyfloat list"
  bar_colors :: "string list"
  bar_text :: "string list"
  line_x :: "string list"
  line_y :: "pyfloat list"
  line_text :: "string list"

text \<open>
  \<open>render_ok\<close> tells whether building the figure and \<open>fig.write_image\<close> succeed; when they
  raise, the outer \<open>except Exception\<close> returns \<open>None\<close>.
\<close>

definition generate_plotly_graph :: "builtins \<Rightarrow> json option \<Rightarrow> json \<Rightarrow> bool \<Rightarrow> chart option" where
  "generate_plotly_graph B pair token_name render_ok =
     (case pair of
        Some (JDict d) \<Rightarrow>
          (case window_values B d time_frames [] [] of
             Inl e \<Rightarrow> None
           | Inr (price_changes, volumes) \<Rightarrow>
               (if render_ok
                then Some \<lparr> chart_title = ''Performance: '' @ py_str B token_name,
                            bar_x = labels,
                            bar_y = price_changes,
                            bar_colors = map (\<lambda>pc. if float_ge pc (Fin 0) then ''#4CAF50'' else ''#F44336'')
                                             price_changes,
                            bar_text = map (\<lambda>val. fmt_fixed B 1 val @ ''%'') price_changes,
                            line_x = labels,
                            line_y = volumes,
                            line_text = map (\<lambda>val. ''$'' @ fmt_fixed B 1 (float_div_const val 1000) @ ''K'')
                                            volumes \<rparr>
                else None))
      | _ \<Rightarrow> None)"

section \<open>Notifier\<close>

text \<open>The two credentials are configuration; the threshold and the intervals are constants.\<close>

record config =
  TELEGRAM_BOT_TOKEN :: string
  TELEGRAM_CHAT_ID :: string

definition CHECK_INTERVAL :: nat where "CHECK_INTERVAL = 300"

definition LIQUIDITY_THRESHOLD :: pyfloat where "LIQUIDITY_THRESHOLD = Fin 5000"

text \<open>A request to the messaging endpoint: the URL, the chat, the text and the image.\<close>

record request =
  req_url :: string
  req_chat_id :: string
  req_text :: string
  req_photo :: "chart option"

text \<open>
  What \<open>requests.post\<close> followed by \<open>raise_for_status\<close> does: it passes, or one of the two
  raises.
\<close>

datatype post_outcome = PostOk | PostRaises exn

fun is_request_exception :: "exn \<Rightarrow> bool" where
  "is_request_exception HTTPError = True"
| "is_request_exception RequestException = True"
| "is_request_exception _ = False"

fun is_exception :: "exn \<Rightarrow> bool" where
  "is_exception _ = True"

text \<open>The \<open>try\<close> block of \<open>send_to_telegram\<close>, with the requests it has made.\<close>

definition send_attempt ::
  "config \<Rightarrow> string \<Rightarrow> chart option \<Rightarrow> post_outcome \<Rightarrow> (exn + bool) \<times> request list" where
  "send_attempt C message image_buffer outcome =
     (if message = [] \<or> TELEGRAM_BOT_TOKEN C = [] \<or> TELEGRAM_CHAT_ID C = []
      then (Inr False, [])
      else
        (let req =
               (case image_buffer of
                  Some img \<Rightarrow>
                    \<lparr> req_url = ''https://api.telegram.org/bot'' @ TELEGRAM_BOT_TOKEN C @ ''/sendPhoto'',
                      req_chat_id = TELEGRAM_CHAT_ID C, req_text = message, req_photo = Some img \<rparr>
                | None \<Rightarrow>
                    \<lparr> req_url = ''https://api.telegram.org/bot'' @ TELEGRAM_BOT_TOKEN C @ ''/sendMessage'',
                      req_chat_id = TELEGRAM_CHAT_ID C, req_text = message, req_photo = None \<rparr>)
         in case outcome of
              PostRaises e \<Rightarrow> (Inl e, [req])
            | PostOk \<Rightarrow> (Inr True, [req])))"

text \<open>The three \<open>except\<close> clauses, in the order of the source, and the final \<open>return False\<close>.\<close>

definition send_to_telegram ::
  "config \<Rightarrow> string \<Rightarrow> chart option \<Rightarrow> post_outcome \<Rightarrow> (exn + bool) \<times> request list" where
  "send_to_telegram C message image_buffer outcome =
     (case send_attempt C message image_buffer outcome of
        (Inr b, reqs) \<Rightarrow> (Inr b, reqs)
      | (Inl e, reqs) \<Rightarrow>
          (if e = HTTPError then (Inr False, reqs)
           else if is_request_exception e then (Inr False, reqs)
           else if is_exception e then (Inr False, reqs)
           else (Inl e, reqs)))"

section \<open>Discovery loop\<close>

text \<open>
  \<open>str.lower\<close> and \<open>str.endswith\<close>. Only the letters A to Z change under \<open>lower\<close> here; no
  character outside ASCII has a lower-case form among the letters of \<open>pump\<close>.
\<close>

definition char_lower :: "char \<Rightarrow> char" where
  "char_lower c =
     (let n = (of_char c :: nat) in if 65 \<le> n \<and> n \<le> 90 then char_of (n + 32) else c)"

definition str_lower :: "string \<Rightarrow> string" where
  "str_lower s = map char_lower s"

definition endswith :: "string \<Rightarrow> string \<Rightarrow> bool" where
  "endswith s suffix =
     (length suffix \<le> length s \<and> drop (length s - length suffix) s = suffix)"

definition is_pump_token :: "json \<Rightarrow> bool" where
  "is_pump_token token_address =
     (case token_address of JStr s \<Rightarrow> endswith (str_lower s) ''pump'' | _ \<Rightarrow> False)"

text \<open>
  What a \<open>requests.get\<close> gives: it raises, or there is a response with a status (2xx or
  not) and a body, which is empty, not JSON, or decodes to a value.
\<close>

datatype body = EmptyBody | InvalidJson | Decoded json

datatype http_get = GetRaises exn | GetResponse bool body

definition fetch_token_profiles :: "http_get \<Rightarrow> json list" where
  "fetch_token_profiles response =
     (case response of
        GetRaises e \<Rightarrow> []
      | GetResponse status_ok b \<Rightarrow>
          (if \<not> status_ok then []
           else case b of
                  Decoded (JList data) \<Rightarrow>
                    filter (\<lambda>token. case token of
                                       JDict t \<Rightarrow> dict_get t ''chainId'' JNull = JStr ''solana''
                                     | _ \<Rightarrow> False) data
                | _ \<Rightarrow> []))"

definition fetch_token_details :: "http_get \<Rightarrow> json option" where
  "fetch_token_details response =
     (case response of
        GetRaises e \<Rightarrow> None
      | GetResponse status_ok b \<Rightarrow>
          (case b of
             EmptyBody \<Rightarrow> None
           | InvalidJson \<Rightarrow> None
           | Decoded data \<Rightarrow>
               (case data of
                  JList ps \<Rightarrow> Some (JDict [(''pairs'', data)])
                | JDict d \<Rightarrow>
                    (if map_of d ''pairs'' \<noteq> None then Some data
                     else Some (JDict [(''pairs'', JList [data])]))
                | _ \<Rightarrow> None)))"

text \<open>
  The state of a run is the global list \<open>known_tokens\<close>; \<open>token_address in known_tokens\<close> is
  equality with an element of the list, as \<open>==\<close> is on strings. The trace records what the
  process does to the outside: the fetches, the requests to the messaging endpoint (each
  with the address of the token it is about and the result of the send) and the sleeps.
\<close>

datatype event =
    GetProfiles
  | GetPairs json
  | Sent json request bool
  | Sleep nat

record state =
  known_tokens :: "json list"
  trace :: "event list"

text \<open>What the outside answers while one candidate is processed.\<close>

record answers =
  pairs_response :: http_get
  render_ok :: bool
  post_result :: post_outcome

text \<open>
  \<open>float(pair.get("liquidity", {}).get("usd", 0))\<close> on a value; the loop of
  \<open>process_new_tokens\<close> evaluates it outside any \<open>try\<close>.
\<close>

definition pair_liquidity :: "builtins \<Rightarrow> json \<Rightarrow> exn + pyfloat" where
  "pair_liquidity B pair =
     (case pair of JDict d \<Rightarrow> float_field B d ''liquidity'' ''usd'' | _ \<Rightarrow> Inl AttributeError)"

text \<open>
  One iteration of the loop over \<open>token_profiles\<close>. The result is the exception that left
  the iteration, if any, the state, and whether \<open>tokens_sent\<close> was incremented.
\<close>

definition process_token ::
  "builtins \<Rightarrow> config \<Rightarrow> answers \<Rightarrow> state \<Rightarrow> json \<Rightarrow> exn option \<times> state \<times> bool" where
  "process_token B C orc st token_profile =
     (case token_profile of
        JDict tp \<Rightarrow>
          (let token_address = dict_get tp ''tokenAddress'' JNull
           in if \<not> truthy token_address \<or> token_address \<in> set (known_tokens st)
                 \<or> is_pump_token token_address
              then (None, st, False)
              else
                (let st1 = st\<lparr>trace := trace st @ [GetPairs token_address]\<rparr>
                 in case fetch_token_details (pairs_response orc) of
                      None \<Rightarrow> (None, st1, False)
                    | Some token_data \<Rightarrow>
                        (if \<not> truthy token_data then (None, st1, False)
                         else case get_main_pair B token_data of
                                None \<Rightarrow> (None, st1, False)
                              | Some pair \<Rightarrow>
                        (if \<not> truthy pair then (None, st1, False)
                         else case pair_liquidity B pair of
                                Inl e \<Rightarrow> (Some e, st1, False)
                              | Inr liq \<Rightarrow>
                        (if float_lt liq LIQUIDITY_THRESHOLD then (None, st1, False)
                         else
                           (let (message, pair) = generate_token_info B token_profile token_data;
                                graph_buffer = generate_plotly_graph B pair token_address (render_ok orc);
                                (result, reqs) = send_to_telegram C message graph_buffer (post_result orc);
                                st2 = st1\<lparr>trace := trace st1
                                              @ map (\<lambda>r. Sent token_address r (result = Inr True)) reqs\<rparr>
                            in case result of
                                 Inl e \<Rightarrow> (Some e, st2, False)
                               | Inr ok \<Rightarrow>
                                   (let st3 = (if ok
                                               then st2\<lparr>known_tokens := known_tokens st2 @ [token_address]\<rparr>
                                               else st2)
                                    in (None, st3\<lparr>trace := trace st3 @ [Sleep 1]\<rparr>, ok))))))))
      | _ \<Rightarrow> (None, st, False))"

text \<open>
  The loop over \<open>token_profiles\<close>: \<open>world i\<close> is what the outside answers for the candidate at
  position \<open>i\<close>. An exception ends the loop and leaves the state as it is at that moment.
\<close>

fun process_profiles ::
  "builtins \<Rightarrow> config \<Rightarrow> (nat \<Rightarrow> answers) \<Rightarrow> nat \<Rightarrow> state \<Rightarrow> nat \<Rightarrow> json list
     \<Rightarrow> exn option \<times> state \<times> nat" where
  "process_profiles B C world i st tokens_sent [] = (None, st, tokens_sent)"
| "process_profiles B C world i st tokens_sent (token_profile # rest) =
     (case process_token B C (world i) st token_profile of
        (Some e, st', sent) \<Rightarrow> (Some e, st', tokens_sent)
      | (None, st', sent) \<Rightarrow>
          process_profiles B C world (Suc i) st' (if sent then tokens_sent + 1 else tokens_sent) rest)"

text \<open>What the outside answers during one pass.\<close>

record pass =
  profiles_response :: http_get
  world :: "nat \<Rightarrow> answers"

definition process_new_tokens :: "builtins \<Rightarrow> config \<Rightarrow> pass \<Rightarrow> state \<Rightarrow> (exn + bool) \<times> state" where
  "process_new_tokens B C p st =
     (let st0 = st\<lparr>trace := trace st @ [GetProfiles]\<rparr>;
          token_profiles = fetch_token_profiles (profiles_response p)
      in if token_profiles = [] then (Inr False, st0)
         else case process_profiles B C (world p) 0 st0 0 token_profiles of
                (Some e, st', tokens_sent) \<Rightarrow> (Inl e, st')
              | (None, st', tokens_sent) \<Rightarrow> (Inr (0 < tokens_sent), st'))"

text \<open>
  The loop of \<open>main\<close> never ends by itself. Its first passes, one for each element of the
  list: after a pass the process sleeps \<open>CHECK_INTERVAL\<close>, after an exception it sleeps 10.
\<close>

fun main_loop :: "builtins \<Rightarrow> config \<Rightarrow> pass list \<Rightarrow> state \<Rightarrow> exn option \<times> state" where
  "main_loop B C [] st = (None, st)"
| "main_loop B C (p # ps) st =
     (case process_new_tokens B C p st of
        (Inr r, st') \<Rightarrow> main_loop B C ps (st'\<lparr>trace := trace st' @ [Sleep CHECK_INTERVAL]\<rparr>)
      | (Inl e, st') \<Rightarrow>
          (if is_exception e
           then main_loop B C ps (st'\<lparr>trace := trace st' @ [Sleep 10]\<rparr>)
           else (Some e, st')))"

definition initial_state :: state where
  "initial_state = \<lparr> known_tokens = [], trace = [] \<rparr>"

section \<open>A concrete runtime for examples\<close>

text \<open>
  An instance of the runtime parameters on which the functions can be evaluated. It reads
  the plain decimal literals among Python's float literals (an optional sign, digits, an
  optional point and digits), formats with \<open>.nf\<close> by rounding half to even, and renders
  \<open>None\<close>, booleans and integers. The examples below use no other string conversions.
\<close>

definition digit_of :: "char \<Rightarrow> nat option" where
  "digit_of c =
     (let n = (of_char c :: nat) in if 48 \<le> n \<and> n \<le> 57 then Some (n - 48) else None)"

fun digits_value :: "string \<Rightarrow> nat \<Rightarrow> nat option" where
  "digits_value [] acc = Some acc"
| "digits_value (c # cs) acc =
     (case digit_of c of None \<Rightarrow> None | Some d \<Rightarrow> digits_value cs (10 * acc + d))"

definition unsigned_decimal :: "string \<Rightarrow> rat option" where
  "unsigned_decimal s =
     (let ip = takeWhile (\<lambda>c. c \<noteq> CHR ''.'') s;
          fp = drop (Suc (length ip)) s
      in if ip = [] \<and> fp = [] then None
         else case (digits_value ip 0, digits_value fp 0) of
                (Some a, Some b) \<Rightarrow> Some (of_nat a + of_nat b / 10 ^ length fp)
              | _ \<Rightarrow> None)"

definition sample_str_float :: "string \<Rightarrow> pyfloat option" where
  "sample_str_float s =
     (case s of
        [] \<Rightarrow> None
      | c # cs \<Rightarrow>
          (if c = CHR ''-'' then map_option (\<lambda>r. Fin (- r)) (unsigned_decimal cs)
           else if c = CHR ''+'' then map_option Fin (unsigned_decimal cs)
           else map_option Fin (unsigned_decimal s)))"

fun nat_digits :: "nat \<Rightarrow> string" where
  "nat_digits n =
     (if n < 10 then [char_of (48 + n)] else nat_digits (n div 10) @ [char_of (48 + n mod 10)])"

declare nat_digits.simps [simp del]

definition round_half_even :: "rat \<Rightarrow> nat" where
  "round_half_even q =
     (let f = nat \<lfloor>q\<rfloor>; d = q - of_nat f
      in if d < 1 / 2 then f else if 1 / 2 < d then f + 1 else if even f then f else f + 1)"

definition sample_fmt_fixed :: "nat \<Rightarrow> pyfloat \<Rightarrow> string" where
  "sample_fmt_fixed n x =
     (case x of
        NaN \<Rightarrow> ''nan''
      | PInf \<Rightarrow> ''inf''
      | NInf \<Rightarrow> ''-inf''
      | Fin r \<Rightarrow>
          (let k = round_half_even (\<bar>r\<bar> * 10 ^ n);
               fp = nat_digits (k mod 10 ^ n)
           in (if r < 0 then ''-'' else []) @ nat_digits (k div 10 ^ n)
              @ (if n = 0 then [] else ''.'' @ replicate (n - length fp) CHR ''0'' @ fp)))"

definition sample_str_other :: "json \<Rightarrow> string" where
  "sample_str_other v =
     (case v of
        JNull \<Rightarrow> ''None''
      | JBool b \<Rightarrow> (if b then ''True'' else ''False'')
      | JInt i \<Rightarrow> (if i < 0 then ''-'' else []) @ nat_digits (nat \<bar>i\<bar>)
      | _ \<Rightarrow> [])"

definition sample_builtins :: builtins where
  "sample_builtins =
     \<lparr> str_float = sample_str_float, fmt_fixed = sample_fmt_fixed, str_other = sample_str_other \<rparr>"

section \<open>The specification's formulas\<close>




text \<open>The example of the specification: liquidity 20000, volume 50000, price change 10.\<close>

definition example_pair :: "(string \<times> json) list" where
  "example_pair =
     [(''liquidity'', JDict [(''usd'', JInt 20000)]),
      (''volume'', JDict [(''h24'', JInt 50000)]),
      (''priceChange'', JDict [(''h24'', JInt 10)])]"

subsection \<open>Pair selector\<close>








subsection \<open>Notifier and message\<close>

text \<open>A configuration with both credentials set.\<close>

definition sample_config :: config where
  "sample_config = \<lparr> TELEGRAM_BOT_TOKEN = ''123:abc'', TELEGRAM_CHAT_ID = ''-100'' \<rparr>"

subsection \<open>Discovery loop\<close>

text \<open>The addresses of the successful sends of a trace, in order.\<close>

fun successes :: "event list \<Rightarrow> json list" where
  "successes [] = []"
| "successes (Sent a r ok # es) = (if ok then a # successes es else successes es)"
| "successes (GetProfiles # es) = successes es"
| "successes (GetPairs a # es) = successes es"
| "successes (Sleep n # es) = successes es"

text \<open>The token address that a fetch or a send is about.\<close>

fun event_address :: "event \<Rightarrow> json option" where
  "event_address (GetPairs a) = Some a"
| "event_address (Sent a r ok) = Some a"
| "event_address GetProfiles = None"
| "event_address (Sleep n) = None"

text \<open>No fetch and no send of the trace is about an address that ends with \<open>pump\<close>.\<close>

definition pump_free :: "event list \<Rightarrow> bool" where
  "pump_free evs =
     list_all (\<lambda>ev. case event_address ev of None \<Rightarrow> True | Some a \<Rightarrow> \<not> is_pump_token a) evs"

text \<open>The address that the loop reads from a profile.\<close>

definition address_of :: "json \<Rightarrow> json" where
  "address_of token_profile =
     (case token_profile of JDict tp \<Rightarrow> dict_get tp ''tokenAddress'' JNull | _ \<Rightarrow> JNull)"

text \<open>The candidate passes the first filter of the loop.\<close>

definition is_candidate :: "state \<Rightarrow> json \<Rightarrow> bool" where
  "is_candidate st token_profile =
     (isinstance_dict token_profile \<and> truthy (address_of token_profile) \<and>
      address_of token_profile \<notin> set (known_tokens st) \<and>
      \<not> is_pump_token (address_of token_profile))"

text \<open>
  What a stretch of the run does to the state: the trace is extended, the known tokens are
  extended by the addresses of the successful sends, and they stay distinct.
\<close>

definition extends :: "state \<Rightarrow> state \<Rightarrow> bool" where
  "extends st st' =
     (\<exists>evs. trace st' = trace st @ evs \<and>
            known_tokens st' = known_tokens st @ successes evs \<and>
            (distinct (known_tokens st) \<longrightarrow> distinct (known_tokens st')) \<and>
            pump_free evs)"

text \<open>A profile of the feed and the answers of the outside for it.\<close>

definition sample_profile :: json where
  "sample_profile =
     JDict [(''chainId'', JStr ''solana''), (''tokenAddress'', JStr ''TokenA'')]"

definition pump_profile :: json where
  "pump_profile =
     JDict [(''chainId'', JStr ''solana''), (''tokenAddress'', JStr ''abcPuMp'')]"

definition profiles_of :: "json \<Rightarrow> http_get" where
  "profiles_of token_profile = GetResponse True (Decoded (JList [token_profile]))"

definition answers_with :: "(string \<times> json) list \<Rightarrow> post_outcome \<Rightarrow> answers" where
  "answers_with pair outcome =
     \<lparr> pairs_response = GetResponse True (Decoded (JList [JDict pair])),
       render_ok = True, post_result = outcome \<rparr>"

definition pass_with :: "json \<Rightarrow> (string \<times> json) list \<Rightarrow> post_outcome \<Rightarrow> pass" where
  "pass_with token_profile pair outcome =
     \<lparr> profiles_response = profiles_of token_profile,
       world = (\<lambda>i. answers_with pair outcome) \<rparr>"

text \<open>
  Three pairs: one below the threshold, one above it with a \<open>volume\<close> of \<open>null\<close>, and one
  with a \<open>liquidity\<close> of \<open>null\<close>.
\<close>

definition low_pair :: "(string \<times> json) list" where
  "low_pair = [(''liquidity'', JDict [(''usd'', JInt 1000)])]"

definition no_volume_pair :: "(string \<times> json) list" where
  "no_volume_pair = [(''liquidity'', JDict [(''usd'', JInt 6000)]), (''volume'', JNull)]"

definition null_liquidity_pair :: "(string \<times> json) list" where
  "null_liquidity_pair = [(''liquidity'', JNull)]"



subsection \<open>Chart renderer\<close>






section \<open>Properties\<close>

subsection \<open>Risk calculator\<close>








subsection \<open>Pair selector\<close>
















subsection \<open>Notifier\<close>

lemma send_to_telegram_result:
  "\<exists>b. fst (send_to_telegram C message image_buffer outcome) = Inr b"
  by (cases outcome)
     (auto simp: send_to_telegram_def send_attempt_def Let_def split: option.splits)

lemma send_to_telegram_raises:
  "fst (send_to_telegram C message image_buffer (PostRaises e)) = Inr False"
  by (auto simp: send_to_telegram_def send_attempt_def Let_def split: option.splits)

lemma send_to_telegram_guard:
  "message = [] \<or> TELEGRAM_BOT_TOKEN C = [] \<or> TELEGRAM_CHAT_ID C = [] \<Longrightarrow>
     send_to_telegram C message image_buffer outcome = (Inr False, [])"
  by (auto simp: send_to_telegram_def send_attempt_def)

text \<open>
  C8. The notifier returns a boolean and never raises: whatever the request does, the
  result is a value, and it is \<open>False\<close> when the request or the status check raises. When
  the message or one of the two credentials is empty, it returns \<open>False\<close> and has made no
  request.
\<close>

theorem send_to_telegram_never_raises:
  "(\<exists>b. fst (send_to_telegram C message image_buffer outcome) = Inr b) \<and>
   (outcome = PostRaises e \<longrightarrow> fst (send_to_telegram C message image_buffer outcome) = Inr False) \<and>
   (message = [] \<or> TELEGRAM_BOT_TOKEN C = [] \<or> TELEGRAM_CHAT_ID C = [] \<longrightarrow>
      send_to_telegram C message image_buffer outcome = (Inr False, []))"
  using send_to_telegram_result send_to_telegram_raises send_to_telegram_guard by blast

theorem send_to_telegram_never_raises_witness:
  "fst (send_to_telegram sample_config ''hello'' None (PostRaises HTTPError)) = Inr False \<and>
   send_to_telegram sample_config [] None PostOk = (Inr False, []) \<and>
   send_to_telegram (sample_config\<lparr>TELEGRAM_CHAT_ID := []\<rparr>) ''hello'' None PostOk = (Inr False, [])"
proof -
  have 1: "fst (send_to_telegram sample_config ''hello'' None (PostRaises HTTPError)) = Inr False"
    using send_to_telegram_never_raises
            [of sample_config "''hello''" None "PostRaises HTTPError" HTTPError]
    by simp
  have 2: "send_to_telegram sample_config [] None PostOk = (Inr False, [])"
    using send_to_telegram_never_raises [of sample_config "[]" None PostOk] by simp
  have 3: "send_to_telegram (sample_config\<lparr>TELEGRAM_CHAT_ID := []\<rparr>) ''hello'' None PostOk
             = (Inr False, [])"
    using send_to_telegram_never_raises
            [of "sample_config\<lparr>TELEGRAM_CHAT_ID := []\<rparr>" "''hello''" None PostOk]
    by simp
  show ?thesis using 1 2 3 by simp
qed

subsection \<open>Message formatter\<close>

lemma error_messages_nonempty:
  "MSG_INVALID_TOKEN \<noteq> []" "MSG_NO_PAIR \<noteq> []" "MSG_RISK_ERROR \<noteq> []"
  by (simp_all add: MSG_INVALID_TOKEN_def MSG_NO_PAIR_def MSG_RISK_ERROR_def)

lemma format_message_nonempty: "format_message B tp a ls r \<noteq> []"
  by (simp add: format_message_def Let_def)

lemma generate_token_info_cases:
  "(\<exists>pair. snd (generate_token_info B token_profile token_data) = Some pair \<and>
           fst (generate_token_info B token_profile token_data) \<noteq> []) \<or>
   (snd (generate_token_info B token_profile token_data) = None \<and>
    fst (generate_token_info B token_profile token_data)
      \<in> {MSG_INVALID_TOKEN, MSG_NO_PAIR, MSG_RISK_ERROR})"
  by (auto simp: generate_token_info_def Let_def format_message_nonempty
           split: json.splits option.splits)

lemma generate_token_info_nonempty:
  "fst (generate_token_info B token_profile token_data) \<noteq> []"
  using generate_token_info_cases[of B token_profile token_data] error_messages_nonempty
  by auto

lemma send_nonempty_requests:
  "message \<noteq> [] \<Longrightarrow> TELEGRAM_BOT_TOKEN C \<noteq> [] \<Longrightarrow> TELEGRAM_CHAT_ID C \<noteq> [] \<Longrightarrow>
     snd (send_to_telegram C message image_buffer outcome) \<noteq> []"
  by (cases outcome)
     (auto simp: send_to_telegram_def send_attempt_def Let_def split: option.splits)

text \<open>
  C10. The message that the formatter returns is never empty; when it returns no pair,
  the message is one of three fixed strings, none of them empty. So with both credentials
  set the notifier does not take its guard branch on a message of the formatter: it makes
  a request.
\<close>

theorem generate_token_info_message_nonempty:
  "fst (generate_token_info B token_profile token_data) \<noteq> [] \<and>
   (snd (generate_token_info B token_profile token_data) = None \<longrightarrow>
      fst (generate_token_info B token_profile token_data)
        \<in> {MSG_INVALID_TOKEN, MSG_NO_PAIR, MSG_RISK_ERROR}) \<and>
   MSG_INVALID_TOKEN \<noteq> [] \<and> MSG_NO_PAIR \<noteq> [] \<and> MSG_RISK_ERROR \<noteq> [] \<and>
   (TELEGRAM_BOT_TOKEN C \<noteq> [] \<and> TELEGRAM_CHAT_ID C \<noteq> [] \<longrightarrow>
      snd (send_to_telegram C (fst (generate_token_info B token_profile token_data))
             image_buffer outcome) \<noteq> [])"
  using generate_token_info_cases[of B token_profile token_data]
        generate_token_info_nonempty[of B token_profile token_data]
        error_messages_nonempty send_nonempty_requests
  by auto

theorem generate_token_info_message_nonempty_witness:
  "snd (generate_token_info sample_builtins JNull JNull) = None \<and>
   fst (generate_token_info sample_builtins JNull JNull) = MSG_INVALID_TOKEN \<and>
   TELEGRAM_BOT_TOKEN sample_config \<noteq> [] \<and> TELEGRAM_CHAT_ID sample_config \<noteq> [] \<and>
   snd (send_to_telegram sample_config (fst (generate_token_info sample_builtins JNull JNull))
          None PostOk) \<noteq> []"
proof -
  have n: "snd (generate_token_info sample_builtins JNull JNull) = None"
    and m: "fst (generate_token_info sample_builtins JNull JNull) = MSG_INVALID_TOKEN"
    by (simp_all add: generate_token_info_def)
  have c: "TELEGRAM_BOT_TOKEN sample_config \<noteq> [] \<and> TELEGRAM_CHAT_ID sample_config \<noteq> []"
    by (simp add: sample_config_def)
  show ?thesis
    using generate_token_info_message_nonempty
            [of sample_builtins JNull JNull sample_config None PostOk] n m c
    by simp
qed

subsection \<open>Discovery loop\<close>

lemma successes_append: "successes (xs @ ys) = successes xs @ successes ys"
  by (induction xs rule: successes.induct) simp_all

lemma send_to_telegram_cases:
  "send_to_telegram C message image_buffer outcome = (Inr False, []) \<or>
   (\<exists>r. send_to_telegram C message image_buffer outcome = (Inr False, [r])) \<or>
   (\<exists>r. send_to_telegram C message image_buffer outcome = (Inr True, [r]))"
  by (cases outcome)
     (auto simp: send_to_telegram_def send_attempt_def Let_def split: option.splits)

lemma process_token_skip:
  "\<not> is_candidate st token_profile \<Longrightarrow>
     process_token B C orc st token_profile = (None, st, False)"
  by (auto simp: process_token_def is_candidate_def address_of_def isinstance_dict_def Let_def
           split: json.splits)

lemma process_token_cases:
  assumes "is_candidate st token_profile"
  defines "a \<equiv> address_of token_profile"
  shows "(\<exists>e. process_token B C orc st token_profile =
                (e, st\<lparr>trace := trace st @ [GetPairs a]\<rparr>, False)) \<or>
         process_token B C orc st token_profile =
                (None, st\<lparr>trace := trace st @ [GetPairs a, Sleep 1]\<rparr>, False) \<or>
         (\<exists>r. process_token B C orc st token_profile =
                (None, st\<lparr>trace := trace st @ [GetPairs a, Sent a r False, Sleep 1]\<rparr>, False)) \<or>
         (\<exists>r. process_token B C orc st token_profile =
                (None, st\<lparr>known_tokens := known_tokens st @ [a],
                           trace := trace st @ [GetPairs a, Sent a r True, Sleep 1]\<rparr>, True))"
proof -
  obtain tp where tp: "token_profile = JDict tp"
    using assms(1) by (cases token_profile) (auto simp: is_candidate_def isinstance_dict_def)
  have a: "dict_get tp ''tokenAddress'' JNull = a"
    using tp by (simp add: a_def address_of_def)
  have filt: "truthy a" "a \<notin> set (known_tokens st)" "\<not> is_pump_token a"
    using assms(1) by (auto simp: is_candidate_def a_def)
  show ?thesis
  proof (cases "fetch_token_details (pairs_response orc)")
    case None
    then show ?thesis using tp a filt by (simp add: process_token_def Let_def)
  next
    case (Some td)
    show ?thesis
    proof (cases "truthy td \<and> get_main_pair B td \<noteq> None")
      case False
      then show ?thesis using tp a filt Some
        by (auto simp: process_token_def Let_def split: option.splits)
    next
      case True
      then obtain pair where pair: "truthy td" "get_main_pair B td = Some pair" by auto
      show ?thesis
      proof (cases "truthy pair")
        case False
        then show ?thesis using tp a filt Some pair by (simp add: process_token_def Let_def)
      next
        case tr: True
        show ?thesis
        proof (cases "pair_liquidity B pair")
          case (Inl e)
          then show ?thesis using tp a filt Some pair tr by (simp add: process_token_def Let_def)
        next
          case (Inr liq)
          show ?thesis
          proof (cases "float_lt liq LIQUIDITY_THRESHOLD")
            case True
            then show ?thesis using tp a filt Some pair tr Inr by (simp add: process_token_def Let_def)
          next
            case False
            obtain m p2 where gti: "generate_token_info B (JDict tp) td = (m, p2)"
              by (cases "generate_token_info B (JDict tp) td") auto
            let ?g = "generate_plotly_graph B p2 a (render_ok orc)"
            consider "send_to_telegram C m ?g (post_result orc) = (Inr False, [])"
              | r where "send_to_telegram C m ?g (post_result orc) = (Inr False, [r])"
              | r where "send_to_telegram C m ?g (post_result orc) = (Inr True, [r])"
              using send_to_telegram_cases[of C m ?g "post_result orc"] by blast
            then show ?thesis
            proof cases
              case 1
              then show ?thesis using tp a filt Some pair tr Inr False gti
                by (simp add: process_token_def Let_def)
            next
              case 2
              then show ?thesis using tp a filt Some pair tr Inr False gti
                by (auto simp: process_token_def Let_def)
            next
              case 3
              then show ?thesis using tp a filt Some pair tr Inr False gti
                by (auto simp: process_token_def Let_def)
            qed
          qed
        qed
      qed
    qed
  qed
qed

lemma process_token_effect:
  assumes "process_token B C orc st token_profile = (e, st', sent)"
  shows "\<exists>evs. trace st' = trace st @ evs \<and>
               known_tokens st' = known_tokens st @ successes evs \<and>
               (successes evs = [] \<or>
                successes evs = [address_of token_profile] \<and>
                address_of token_profile \<notin> set (known_tokens st)) \<and>
               (sent \<longleftrightarrow> successes evs \<noteq> []) \<and> pump_free evs"
proof (cases "is_candidate st token_profile")
  case False
  then have "st' = st" "\<not> sent" using assms process_token_skip by auto
  then show ?thesis by (intro exI[of _ "[]"]) (simp add: pump_free_def)
next
  case True
  then have nk: "address_of token_profile \<notin> set (known_tokens st)"
    "\<not> is_pump_token (address_of token_profile)"
    by (simp_all add: is_candidate_def)
  let ?a = "address_of token_profile"
  consider e' where "process_token B C orc st token_profile =
                (e', st\<lparr>trace := trace st @ [GetPairs ?a]\<rparr>, False)"
    | "process_token B C orc st token_profile =
                (None, st\<lparr>trace := trace st @ [GetPairs ?a, Sleep 1]\<rparr>, False)"
    | r where "process_token B C orc st token_profile =
                (None, st\<lparr>trace := trace st @ [GetPairs ?a, Sent ?a r False, Sleep 1]\<rparr>, False)"
    | r where "process_token B C orc st token_profile =
                (None, st\<lparr>known_tokens := known_tokens st @ [?a],
                           trace := trace st @ [GetPairs ?a, Sent ?a r True, Sleep 1]\<rparr>, True)"
    using process_token_cases[OF True, of B C orc] by blast
  then show ?thesis
  proof cases
    case 1
    then show ?thesis using assms nk by (intro exI[of _ "[GetPairs ?a]"]) (auto simp: pump_free_def)
  next
    case 2
    then show ?thesis using assms nk by (intro exI[of _ "[GetPairs ?a, Sleep 1]"]) (auto simp: pump_free_def)
  next
    case 3
    then show ?thesis using assms nk
      by (intro exI[of _ "[GetPairs ?a, Sent ?a r False, Sleep 1]"]) (auto simp: pump_free_def)
  next
    case 4
    then show ?thesis using assms nk
      by (intro exI[of _ "[GetPairs ?a, Sent ?a r True, Sleep 1]"]) (auto simp: pump_free_def)
  qed
qed

lemma extends_refl: "extends st st"
  by (auto simp: extends_def pump_free_def intro: exI[of _ "[]"])

lemma extends_trans: "extends a b \<Longrightarrow> extends b c \<Longrightarrow> extends a c"
  unfolding extends_def
  by (elim exE conjE, rule_tac x="evs @ evsa" in exI) (simp add: successes_append pump_free_def)

lemma extends_event:
  "successes [ev] = [] \<Longrightarrow> event_address ev = None \<Longrightarrow>
     extends st (st\<lparr>trace := trace st @ [ev]\<rparr>)"
  by (auto simp: extends_def pump_free_def intro: exI[of _ "[ev]"])

lemma process_token_extends:
  assumes "process_token B C orc st token_profile = (e, st', sent)"
  shows "extends st st'"
proof -
  obtain evs where "trace st' = trace st @ evs"
    "known_tokens st' = known_tokens st @ successes evs"
    "successes evs = [] \<or>
       successes evs = [address_of token_profile] \<and>
       address_of token_profile \<notin> set (known_tokens st)"
    "pump_free evs"
    using process_token_effect[OF assms] by blast
  then show ?thesis unfolding extends_def by (intro exI[of _ evs]) auto
qed

lemma process_profiles_extends:
  "process_profiles B C w i st n profiles = (e, st', n') \<Longrightarrow> extends st st'"
proof (induction profiles arbitrary: i st n)
  case Nil
  then show ?case by (simp add: extends_refl)
next
  case (Cons p ps)
  obtain e1 st1 s1 where pt: "process_token B C (w i) st p = (e1, st1, s1)"
    by (cases "process_token B C (w i) st p") auto
  have 1: "extends st st1" using process_token_extends[OF pt] .
  show ?case
  proof (cases e1)
    case None
    then have "process_profiles B C w (Suc i) st1 (if s1 then n + 1 else n) ps = (e, st', n')"
      using Cons.prems pt by simp
    then have "extends st1 st'" using Cons.IH by blast
    then show ?thesis using 1 extends_trans by blast
  next
    case (Some x)
    then have "st' = st1" using Cons.prems pt by simp
    then show ?thesis using 1 by simp
  qed
qed

lemma process_new_tokens_extends:
  assumes "process_new_tokens B C p st = (r, st')"
  shows "extends st st'"
proof -
  let ?st0 = "st\<lparr>trace := trace st @ [GetProfiles]\<rparr>"
  have 0: "extends st ?st0" by (rule extends_event) simp_all
  show ?thesis
  proof (cases "fetch_token_profiles (profiles_response p) = []")
    case True
    then have "st' = ?st0" using assms by (simp add: process_new_tokens_def Let_def)
    then show ?thesis using 0 by simp
  next
    case False
    obtain e1 st1 n1 where pp:
      "process_profiles B C (world p) 0 ?st0 0 (fetch_token_profiles (profiles_response p))
         = (e1, st1, n1)"
      by (cases "process_profiles B C (world p) 0 ?st0 0
                   (fetch_token_profiles (profiles_response p))") auto
    then have "st' = st1" using assms False
      by (auto simp: process_new_tokens_def Let_def split: option.splits)
    moreover have "extends ?st0 st1" using process_profiles_extends[OF pp] .
    ultimately show ?thesis using 0 extends_trans by blast
  qed
qed

lemma main_loop_extends:
  "main_loop B C passes st = (e, st') \<Longrightarrow> extends st st'"
proof (induction passes arbitrary: st)
  case Nil
  then show ?case by (simp add: extends_refl)
next
  case (Cons p ps)
  obtain r st1 where pn: "process_new_tokens B C p st = (r, st1)"
    by (cases "process_new_tokens B C p st") auto
  have 1: "extends st st1" using process_new_tokens_extends[OF pn] .
  show ?case
  proof (cases r)
    case (Inr b)
    let ?st2 = "st1\<lparr>trace := trace st1 @ [Sleep CHECK_INTERVAL]\<rparr>"
    have "main_loop B C ps ?st2 = (e, st')" using Cons.prems pn Inr by simp
    then have "extends ?st2 st'" using Cons.IH by blast
    moreover have "extends st1 ?st2" by (rule extends_event) simp_all
    ultimately show ?thesis using 1 extends_trans by blast
  next
    case (Inl x)
    let ?st2 = "st1\<lparr>trace := trace st1 @ [Sleep 10]\<rparr>"
    have "main_loop B C ps ?st2 = (e, st')" using Cons.prems pn Inl by simp
    then have "extends ?st2 st'" using Cons.IH by blast
    moreover have "extends st1 ?st2" by (rule extends_event) simp_all
    ultimately show ?thesis using 1 extends_trans by blast
  qed
qed

lemma successes_in:
  "a \<in> set (successes evs) \<Longrightarrow> \<exists>r. Sent a r True \<in> set evs"
  by (induction evs rule: successes.induct) (auto split: if_splits)

lemma pump_free_events:
  assumes "pump_free evs" and "is_pump_token a"
  shows "GetPairs a \<notin> set evs \<and> (\<forall>r ok. Sent a r ok \<notin> set evs)"
proof -
  have "\<And>ev. ev \<in> set evs \<Longrightarrow> event_address ev \<noteq> Some a"
    using assms by (auto simp: pump_free_def list_all_iff split: option.splits)
  then show ?thesis by force
qed

lemma length_str_lower: "length (str_lower s) = length s"
  by (simp add: str_lower_def)

lemma is_pump_token_suffix:
  assumes "str_lower suf = ''pump''"
  shows "is_pump_token (JStr (pre @ suf))"
proof -
  have "length suf = 4" using length_str_lower[of suf] assms by simp
  moreover have "str_lower (pre @ suf) = str_lower pre @ ''pump''"
    using assms by (simp add: str_lower_def)
  ultimately show ?thesis
    by (simp add: is_pump_token_def endswith_def length_str_lower)
qed

lemma process_token_pump:
  "is_pump_token (address_of token_profile) \<Longrightarrow>
     process_token B C orc st token_profile = (None, st, False)"
  by (rule process_token_skip) (simp add: is_candidate_def)

lemma main_loop_pump:
  assumes "main_loop B C passes st = (e, st')" and "is_pump_token a"
  shows "(\<exists>evs. trace st' = trace st @ evs \<and> GetPairs a \<notin> set evs \<and>
             (\<forall>r ok. Sent a r ok \<notin> set evs)) \<and>
         (a \<in> set (known_tokens st') \<longrightarrow> a \<in> set (known_tokens st))"
proof -
  obtain evs where evs: "trace st' = trace st @ evs"
    "known_tokens st' = known_tokens st @ successes evs" "pump_free evs"
    using main_loop_extends[OF assms(1)] by (auto simp: extends_def)
  have no: "GetPairs a \<notin> set evs \<and> (\<forall>r ok. Sent a r ok \<notin> set evs)"
    using pump_free_events[OF evs(3) assms(2)] .
  then have "a \<notin> set (successes evs)" using successes_in by blast
  then show ?thesis using evs(1,2) no by auto
qed

text \<open>
  C6. A token whose address ends with \<open>pump\<close> in any letter case is skipped by the loop
  before anything is fetched: the iteration leaves the state as it is. In a run, no fetch
  and no send is about such an address, and it is among the known tokens at the end only
  if it was there at the start.
\<close>

theorem pump_tokens_skipped:
  "(dict_get tp ''tokenAddress'' JNull = JStr (pre @ suf) \<and> str_lower suf = ''pump'' \<longrightarrow>
      process_token B C orc st (JDict tp) = (None, st, False)) \<and>
   (main_loop B C passes st = (e, st') \<and> a = JStr (pre @ suf) \<and> str_lower suf = ''pump'' \<longrightarrow>
      (\<exists>evs. trace st' = trace st @ evs \<and> GetPairs a \<notin> set evs \<and>
             (\<forall>r ok. Sent a r ok \<notin> set evs)) \<and>
      (a \<in> set (known_tokens st') \<longrightarrow> a \<in> set (known_tokens st)))"
proof (rule conjI; rule impI)
  assume "dict_get tp ''tokenAddress'' JNull = JStr (pre @ suf) \<and> str_lower suf = ''pump''"
  then have "is_pump_token (address_of (JDict tp))"
    using is_pump_token_suffix by (simp add: address_of_def)
  then show "process_token B C orc st (JDict tp) = (None, st, False)"
    by (rule process_token_pump)
next
  assume h: "main_loop B C passes st = (e, st') \<and> a = JStr (pre @ suf) \<and> str_lower suf = ''pump''"
  then have p: "is_pump_token a" using is_pump_token_suffix by simp
  show "(\<exists>evs. trace st' = trace st @ evs \<and> GetPairs a \<notin> set evs \<and>
             (\<forall>r ok. Sent a r ok \<notin> set evs)) \<and>
      (a \<in> set (known_tokens st') \<longrightarrow> a \<in> set (known_tokens st))"
    using main_loop_pump[of B C passes st e st' a] h p by blast
qed

lemma fetch_token_details_truthy:
  "fetch_token_details response = Some td \<Longrightarrow> truthy td \<and> isinstance_dict td"
  by (auto simp: fetch_token_details_def isinstance_dict_def
           split: http_get.splits body.splits json.splits if_splits)

lemma get_main_pair_truthy: "get_main_pair B td = Some pair \<Longrightarrow> truthy pair"
  by (auto simp: get_main_pair_def Let_def not_pair_def
           split: json.splits sum.splits if_splits option.splits)

lemma process_token_below_threshold:
  assumes "fetch_token_details (pairs_response orc) = Some token_data"
      and "get_main_pair B token_data = Some pair"
      and "pair_liquidity B pair = Inr liq"
      and "float_lt liq LIQUIDITY_THRESHOLD"
  shows "process_token B C orc st token_profile =
           (if is_candidate st token_profile
            then (None, st\<lparr>trace := trace st @ [GetPairs (address_of token_profile)]\<rparr>, False)
            else (None, st, False))"
proof (cases "is_candidate st token_profile")
  case False
  then show ?thesis using process_token_skip by simp
next
  case True
  then obtain tp where tp: "token_profile = JDict tp"
    by (cases token_profile) (auto simp: is_candidate_def isinstance_dict_def)
  have "truthy token_data" "truthy pair"
    using assms(1,2) fetch_token_details_truthy get_main_pair_truthy by blast+
  then show ?thesis using True tp assms
    by (simp add: process_token_def Let_def is_candidate_def address_of_def)
qed

text \<open>
  C7. When the main pair selected for a candidate has a parsed \<open>liquidity.usd\<close> strictly
  below the threshold of 5000, the iteration ends without a send: it returns no exception
  and no increment, the known tokens are unchanged, and the trace gains at most the fetch
  of the details.
\<close>

theorem below_threshold_no_send:
  "LIQUIDITY_THRESHOLD = Fin 5000 \<and>
   (fetch_token_details (pairs_response orc) = Some token_data \<and>
    get_main_pair B token_data = Some pair \<and>
    pair_liquidity B pair = Inr liq \<and> float_lt liq (Fin 5000) \<and>
    process_token B C orc st token_profile = (e, st', sent) \<longrightarrow>
      e = None \<and> \<not> sent \<and> known_tokens st' = known_tokens st \<and>
      (trace st' = trace st \<or> trace st' = trace st @ [GetPairs (address_of token_profile)]))"
proof (rule conjI)
  show "LIQUIDITY_THRESHOLD = Fin 5000" by (simp add: LIQUIDITY_THRESHOLD_def)
  show "fetch_token_details (pairs_response orc) = Some token_data \<and>
    get_main_pair B token_data = Some pair \<and>
    pair_liquidity B pair = Inr liq \<and> float_lt liq (Fin 5000) \<and>
    process_token B C orc st token_profile = (e, st', sent) \<longrightarrow>
      e = None \<and> \<not> sent \<and> known_tokens st' = known_tokens st \<and>
      (trace st' = trace st \<or> trace st' = trace st @ [GetPairs (address_of token_profile)])"
  proof (rule impI, elim conjE)
    assume a: "fetch_token_details (pairs_response orc) = Some token_data"
      "get_main_pair B token_data = Some pair" "pair_liquidity B pair = Inr liq"
      "float_lt liq (Fin 5000)" "process_token B C orc st token_profile = (e, st', sent)"
    have "float_lt liq LIQUIDITY_THRESHOLD" using a(4) by (simp add: LIQUIDITY_THRESHOLD_def)
    then show "e = None \<and> \<not> sent \<and> known_tokens st' = known_tokens st \<and>
      (trace st' = trace st \<or> trace st' = trace st @ [GetPairs (address_of token_profile)])"
      using process_token_below_threshold[OF a(1,2,3), of C st token_profile] a(5)
      by (auto split: if_splits)
  qed
qed


lemma process_token_send_effect:
  assumes "process_token B C orc st token_profile = (e, st', sent)"
  shows "\<exists>evs. trace st' = trace st @ evs \<and>
           (sent \<longrightarrow> (\<exists>r. Sent (address_of token_profile) r True \<in> set evs) \<and>
                      known_tokens st' = known_tokens st @ [address_of token_profile]) \<and>
           (\<not> sent \<longrightarrow> (\<forall>a r. Sent a r True \<notin> set evs) \<and>
                        known_tokens st' = known_tokens st \<and>
                        (is_candidate st token_profile \<longrightarrow> is_candidate st' token_profile)) \<and>
           (is_candidate st token_profile \<longrightarrow>
              (\<exists>rest. evs = GetPairs (address_of token_profile) # rest))"
proof (cases "is_candidate st token_profile")
  case False
  then have "st' = st" "\<not> sent" using assms process_token_skip by auto
  then show ?thesis using False by (intro exI[of _ "[]"]) simp
next
  case True
  let ?a = "address_of token_profile"
  consider e' where "process_token B C orc st token_profile =
                (e', st\<lparr>trace := trace st @ [GetPairs ?a]\<rparr>, False)"
    | "process_token B C orc st token_profile =
                (None, st\<lparr>trace := trace st @ [GetPairs ?a, Sleep 1]\<rparr>, False)"
    | r where "process_token B C orc st token_profile =
                (None, st\<lparr>trace := trace st @ [GetPairs ?a, Sent ?a r False, Sleep 1]\<rparr>, False)"
    | r where "process_token B C orc st token_profile =
                (None, st\<lparr>known_tokens := known_tokens st @ [?a],
                           trace := trace st @ [GetPairs ?a, Sent ?a r True, Sleep 1]\<rparr>, True)"
    using process_token_cases[OF True, of B C orc] by blast
  then show ?thesis
  proof cases
    case 1
    then show ?thesis using assms True
      by (intro exI[of _ "[GetPairs ?a]"]) (auto simp: is_candidate_def)
  next
    case 2
    then show ?thesis using assms True
      by (intro exI[of _ "[GetPairs ?a, Sleep 1]"]) (auto simp: is_candidate_def)
  next
    case 3
    then show ?thesis using assms True
      by (intro exI[of _ "[GetPairs ?a, Sent ?a r False, Sleep 1]"]) (auto simp: is_candidate_def)
  next
    case 4
    then show ?thesis using assms True
      by (intro exI[of _ "[GetPairs ?a, Sent ?a r True, Sleep 1]"]) (auto simp: is_candidate_def)
  qed
qed




lemma is_pump_example: "is_pump_token (JStr ''abcPuMp'')"
  by code_simp

lemma fetch_profiles_sample:
  "fetch_token_profiles (profiles_of sample_profile) = [sample_profile]"
  "fetch_token_profiles (profiles_of pump_profile) = [pump_profile]"
  by (simp_all add: fetch_token_profiles_def profiles_of_def sample_profile_def pump_profile_def
        dict_get_def)

lemma fetch_details_answers:
  "fetch_token_details (pairs_response (answers_with pair outcome)) =
     Some (JDict [(''pairs'', JList [JDict pair])])"
  by (simp add: fetch_token_details_def answers_with_def)

lemma small_ints: "\<not> FLOAT_OVERFLOW \<le> 1000" "\<not> FLOAT_OVERFLOW \<le> 6000" "\<not> FLOAT_OVERFLOW \<le> 20000"
  "\<not> FLOAT_OVERFLOW \<le> 0"
  by (simp_all add: FLOAT_OVERFLOW_def)

lemma entry_liquidity_examples:
  "entry_liquidity sample_builtins example_pair = Inr (Fin 20000)"
  "entry_liquidity sample_builtins low_pair = Inr (Fin 1000)"
  "entry_liquidity sample_builtins no_volume_pair = Inr (Fin 6000)"
  "entry_liquidity sample_builtins null_liquidity_pair = Inr (Fin 0)"
  by (simp_all add: entry_liquidity_def example_pair_def low_pair_def no_volume_pair_def
        null_liquidity_pair_def dict_get_def py_float_def small_ints)

lemma get_main_pair_single:
  assumes "entry_liquidity B d = Inr x" and "d \<noteq> []"
  shows "get_main_pair B (JDict [(''pairs'', JList [JDict d])]) = Some (JDict d)"
  using assms
  by (simp add: get_main_pair_def dict_get_def not_pair_def isinstance_dict_def Let_def)

lemma pair_liquidity_examples:
  "pair_liquidity sample_builtins (JDict example_pair) = Inr (Fin 20000)"
  "pair_liquidity sample_builtins (JDict low_pair) = Inr (Fin 1000)"
  "pair_liquidity sample_builtins (JDict no_volume_pair) = Inr (Fin 6000)"
  "pair_liquidity sample_builtins (JDict null_liquidity_pair) = Inl AttributeError"
  by (simp_all add: pair_liquidity_def float_field_def py_get_def example_pair_def low_pair_def
        no_volume_pair_def null_liquidity_pair_def dict_get_def py_float_def small_ints)

lemma sample_candidate:
  "JStr ''TokenA'' \<notin> set (known_tokens st) \<Longrightarrow> is_candidate st sample_profile"
  by (simp add: is_candidate_def sample_profile_def address_of_def isinstance_dict_def
        dict_get_def is_pump_token_def endswith_def str_lower_def char_lower_def)

lemma sample_address: "address_of sample_profile = JStr ''TokenA''"
  by (simp add: sample_profile_def address_of_def dict_get_def)



lemma process_new_tokens_single:
  assumes "fetch_token_profiles (profiles_of token_profile) = [token_profile]"
  shows "process_new_tokens B C (pass_with token_profile pair outcome) st =
           (case process_token B C (answers_with pair outcome)
                   (st\<lparr>trace := trace st @ [GetProfiles]\<rparr>) token_profile of
              (Some e, st', sent) \<Rightarrow> (Inl e, st')
            | (None, st', sent) \<Rightarrow> (Inr sent, st'))"
  using assms
  by (auto simp: process_new_tokens_def pass_with_def Let_def split: prod.splits option.splits)






theorem pump_tokens_skipped_witness:
  "dict_get [(''chainId'', JStr ''solana''), (''tokenAddress'', JStr ''abcPuMp'')]
      ''tokenAddress'' JNull = JStr (''abc'' @ ''PuMp'') \<and>
   str_lower ''PuMp'' = ''pump'' \<and>
   process_token sample_builtins sample_config (answers_with example_pair PostOk) initial_state
     pump_profile = (None, initial_state, False) \<and>
   main_loop sample_builtins sample_config [pass_with pump_profile example_pair PostOk]
     initial_state
     = (None, \<lparr> known_tokens = [], trace = [GetProfiles, Sleep 300] \<rparr>) \<and>
   JStr ''abcPuMp'' \<notin> set (known_tokens \<lparr> known_tokens = [], trace = [GetProfiles, Sleep 300] \<rparr>)"
proof -
  have d: "dict_get [(''chainId'', JStr ''solana''), (''tokenAddress'', JStr ''abcPuMp'')]
      ''tokenAddress'' JNull = JStr (''abc'' @ ''PuMp'')"
    by (simp add: dict_get_def)
  have l: "str_lower ''PuMp'' = ''pump''" by code_simp
  note inst = pump_tokens_skipped
      [where tp = "[(''chainId'', JStr ''solana''), (''tokenAddress'', JStr ''abcPuMp'')]"
         and pre = "''abc''" and suf = "''PuMp''" and B = sample_builtins and C = sample_config
         and orc = "answers_with example_pair PostOk" and st = initial_state
         and passes = "[pass_with pump_profile example_pair PostOk]" and e = None
         and st' = "\<lparr> known_tokens = [], trace = [GetProfiles, Sleep 300] \<rparr>"
         and a = "JStr ''abcPuMp''"]
  have step: "process_token sample_builtins sample_config (answers_with example_pair PostOk)
     initial_state pump_profile = (None, initial_state, False)"
    using inst d l by (simp add: pump_profile_def)
  have "address_of pump_profile = JStr ''abcPuMp''"
    by (simp add: pump_profile_def address_of_def dict_get_def)
  then have skip: "\<And>st. process_token sample_builtins sample_config
     (answers_with example_pair PostOk) st pump_profile = (None, st, False)"
    using process_token_pump is_pump_example by simp
  have run: "main_loop sample_builtins sample_config [pass_with pump_profile example_pair PostOk]
     initial_state
     = (None, \<lparr> known_tokens = [], trace = [GetProfiles, Sleep 300] \<rparr>)"
    using process_new_tokens_single[OF fetch_profiles_sample(2)] skip
    by (simp add: initial_state_def CHECK_INTERVAL_def)
  have "JStr ''abcPuMp'' \<notin> set (known_tokens \<lparr> known_tokens = [], trace = [GetProfiles, Sleep 300] \<rparr>)"
    using inst run l by (simp add: initial_state_def)
  then show ?thesis using d l step run by simp
qed

theorem below_threshold_no_send_witness:
  "fetch_token_details (pairs_response (answers_with low_pair PostOk))
     = Some (JDict [(''pairs'', JList [JDict low_pair])]) \<and>
   get_main_pair sample_builtins (JDict [(''pairs'', JList [JDict low_pair])]) = Some (JDict low_pair) \<and>
   pair_liquidity sample_builtins (JDict low_pair) = Inr (Fin 1000) \<and>
   float_lt (Fin 1000) (Fin 5000) \<and>
   process_token sample_builtins sample_config (answers_with low_pair PostOk) initial_state
     sample_profile
     = (None, \<lparr> known_tokens = [], trace = [GetPairs (JStr ''TokenA'')] \<rparr>, False)"
proof -
  have ne: "low_pair \<noteq> []" by (simp add: low_pair_def)
  have g: "get_main_pair sample_builtins (JDict [(''pairs'', JList [JDict low_pair])])
             = Some (JDict low_pair)"
    using get_main_pair_single[OF entry_liquidity_examples(2) ne] .
  obtain e st' sent where p:
    "process_token sample_builtins sample_config (answers_with low_pair PostOk) initial_state
       sample_profile = (e, st', sent)"
    by (cases "process_token sample_builtins sample_config (answers_with low_pair PostOk)
                 initial_state sample_profile") auto
  have c: "is_candidate initial_state sample_profile"
    using sample_candidate by (simp add: initial_state_def)
  then obtain rest where r: "trace st' = trace initial_state @ GetPairs (address_of sample_profile) # rest"
    using process_token_send_effect[OF p] by auto
  have "e = None \<and> \<not> sent \<and> known_tokens st' = known_tokens initial_state \<and>
      (trace st' = trace initial_state \<or>
       trace st' = trace initial_state @ [GetPairs (address_of sample_profile)])"
    using below_threshold_no_send
            [of "answers_with low_pair PostOk" "JDict [(''pairs'', JList [JDict low_pair])]"
                sample_builtins "JDict low_pair" "Fin 1000" sample_config initial_state
                sample_profile e st' sent]
          fetch_details_answers[of low_pair PostOk] g pair_liquidity_examples(2) p
    by simp
  then have "e = None \<and> \<not> sent \<and> st' = \<lparr> known_tokens = [], trace = [GetPairs (JStr ''TokenA'')] \<rparr>"
    using r by (cases st') (auto simp: initial_state_def sample_address)
  then show ?thesis
    using fetch_details_answers[of low_pair PostOk] g pair_liquidity_examples(2) p by simp
qed

lemma risk_no_volume: "calculate_investment_risk sample_builtins (JDict no_volume_pair) = None"
  by (simp add: calculate_investment_risk_def float_field_def py_get_def dict_get_def
        no_volume_pair_def py_float_def small_ints)

lemma token_info_no_volume:
  "generate_token_info sample_builtins sample_profile
     (JDict [(''pairs'', JList [JDict no_volume_pair])]) = (MSG_RISK_ERROR, None)"
proof -
  have ne: "no_volume_pair \<noteq> []" by (simp add: no_volume_pair_def)
  have "truthy (JDict no_volume_pair)" using ne by simp
  then show ?thesis
    using get_main_pair_single[OF entry_liquidity_examples(3) ne] risk_no_volume
    by (simp add: generate_token_info_def sample_profile_def isinstance_dict_def Let_def)
qed

text \<open>
  C3 fails on the code. The pair has a liquidity of 6000 and a \<open>volume\<close> of \<open>null\<close>: the
  formatter returns the fixed message of the failed risk calculation and no pair, and the
  loop sends that message as a text and marks the token as known.
\<close>

theorem error_message_is_sent:
  "generate_token_info sample_builtins sample_profile
     (JDict [(''pairs'', JList [JDict no_volume_pair])]) = (MSG_RISK_ERROR, None) \<and>
   process_token sample_builtins sample_config (answers_with no_volume_pair PostOk)
     initial_state sample_profile
     = (None,
        \<lparr> known_tokens = [JStr ''TokenA''],
          trace = [GetPairs (JStr ''TokenA''),
                   Sent (JStr ''TokenA'')
                     \<lparr> req_url = ''https://api.telegram.org/bot123:abc/sendMessage'',
                       req_chat_id = ''-100'', req_text = MSG_RISK_ERROR, req_photo = None \<rparr>
                     True,
                   Sleep 1] \<rparr>,
        True)"
proof -
  have ne: "no_volume_pair \<noteq> []" by (simp add: no_volume_pair_def)
  have c: "is_candidate initial_state sample_profile"
    using sample_candidate by (simp add: initial_state_def)
  have filt: "truthy (JStr ''TokenA'')" "\<not> is_pump_token (JStr ''TokenA'')"
    using c by (simp_all add: is_candidate_def sample_address)
  have a: "dict_get [(''chainId'', JStr ''solana''), (''tokenAddress'', JStr ''TokenA'')]
             ''tokenAddress'' JNull = JStr ''TokenA''"
    by (simp add: dict_get_def)
  have th: "\<not> float_lt (Fin 6000) LIQUIDITY_THRESHOLD" by (simp add: LIQUIDITY_THRESHOLD_def)
  have gti: "generate_token_info sample_builtins
               (JDict [(''chainId'', JStr ''solana''), (''tokenAddress'', JStr ''TokenA'')])
               (JDict [(''pairs'', JList [JDict no_volume_pair])]) = (MSG_RISK_ERROR, None)"
    using token_info_no_volume by (simp add: sample_profile_def)
  have send: "send_to_telegram sample_config MSG_RISK_ERROR None PostOk =
     (Inr True, [\<lparr> req_url = ''https://api.telegram.org/bot123:abc/sendMessage'',
                    req_chat_id = ''-100'', req_text = MSG_RISK_ERROR, req_photo = None \<rparr>])"
    by (simp add: send_to_telegram_def send_attempt_def sample_config_def MSG_RISK_ERROR_def)
  have "process_token sample_builtins sample_config (answers_with no_volume_pair PostOk)
     initial_state sample_profile
     = (None,
        \<lparr> known_tokens = [JStr ''TokenA''],
          trace = [GetPairs (JStr ''TokenA''),
                   Sent (JStr ''TokenA'')
                     \<lparr> req_url = ''https://api.telegram.org/bot123:abc/sendMessage'',
                       req_chat_id = ''-100'', req_text = MSG_RISK_ERROR, req_photo = None \<rparr>
                     True,
                   Sleep 1] \<rparr>,
        True)"
    using filt a th gti send fetch_details_answers[of no_volume_pair PostOk]
          get_main_pair_single[OF entry_liquidity_examples(3) ne] pair_liquidity_examples(3) ne
    by (simp add: process_token_def sample_profile_def Let_def initial_state_def
          generate_plotly_graph_def answers_with_def)
  then show ?thesis using token_info_no_volume by simp
qed

text \<open>
  C4 fails on the code. The only pair has a \<open>liquidity\<close> of \<open>null\<close>: the selector returns it as
  the first entry, the conversion of its liquidity in the loop raises \<open>AttributeError\<close>
  outside any \<open>try\<close>, and the exception leaves \<open>process_new_tokens\<close>; the loop of \<open>main\<close>
  catches it and sleeps 10.
\<close>

theorem threshold_comparison_raises:
  "get_main_pair sample_builtins (JDict [(''pairs'', JList [JDict null_liquidity_pair])])
     = Some (JDict null_liquidity_pair) \<and>
   pair_liquidity sample_builtins (JDict null_liquidity_pair) = Inl AttributeError \<and>
   process_new_tokens sample_builtins sample_config
     (pass_with sample_profile null_liquidity_pair PostOk) initial_state
     = (Inl AttributeError,
        \<lparr> known_tokens = [], trace = [GetProfiles, GetPairs (JStr ''TokenA'')] \<rparr>) \<and>
   main_loop sample_builtins sample_config
     [pass_with sample_profile null_liquidity_pair PostOk] initial_state
     = (None,
        \<lparr> known_tokens = [], trace = [GetProfiles, GetPairs (JStr ''TokenA''), Sleep 10] \<rparr>)"
proof -
  have ne: "null_liquidity_pair \<noteq> []" by (simp add: null_liquidity_pair_def)
  have g: "get_main_pair sample_builtins (JDict [(''pairs'', JList [JDict null_liquidity_pair])])
     = Some (JDict null_liquidity_pair)"
    using get_main_pair_single[OF entry_liquidity_examples(4) ne] .
  let ?st0 = "initial_state\<lparr>trace := trace initial_state @ [GetProfiles]\<rparr>"
  have c: "is_candidate ?st0 sample_profile"
    using sample_candidate by (simp add: initial_state_def)
  have filt: "truthy (JStr ''TokenA'')" "\<not> is_pump_token (JStr ''TokenA'')"
    using c by (simp_all add: is_candidate_def sample_address)
  have a: "dict_get [(''chainId'', JStr ''solana''), (''tokenAddress'', JStr ''TokenA'')]
             ''tokenAddress'' JNull = JStr ''TokenA''"
    by (simp add: dict_get_def)
  have step: "process_token sample_builtins sample_config
                (answers_with null_liquidity_pair PostOk) ?st0 sample_profile
              = (Some AttributeError,
                 \<lparr> known_tokens = [], trace = [GetProfiles, GetPairs (JStr ''TokenA'')] \<rparr>, False)"
    using filt a fetch_details_answers[of null_liquidity_pair PostOk] g
          pair_liquidity_examples(4) ne
    by (simp add: process_token_def sample_profile_def Let_def initial_state_def)
  have pass: "process_new_tokens sample_builtins sample_config
     (pass_with sample_profile null_liquidity_pair PostOk) initial_state
     = (Inl AttributeError,
        \<lparr> known_tokens = [], trace = [GetProfiles, GetPairs (JStr ''TokenA'')] \<rparr>)"
    using process_new_tokens_single[OF fetch_profiles_sample(1)] step by simp
  then have "main_loop sample_builtins sample_config
     [pass_with sample_profile null_liquidity_pair PostOk] initial_state
     = (None,
        \<lparr> known_tokens = [], trace = [GetProfiles, GetPairs (JStr ''TokenA''), Sleep 10] \<rparr>)"
    by simp
  then show ?thesis using g pair_liquidity_examples(4) pass by simp
qed

theorem error_message_is_sent_witness:
  "fst (generate_token_info sample_builtins sample_profile
          (JDict [(''pairs'', JList [JDict no_volume_pair])])) = ''Erro ao calcular risco'' \<and>
   known_tokens (fst (snd (process_token sample_builtins sample_config
                             (answers_with no_volume_pair PostOk) initial_state sample_profile)))
     = [JStr ''TokenA'']"
  using error_message_is_sent by (simp add: MSG_RISK_ERROR_def)

theorem threshold_comparison_raises_witness:
  "fst (process_new_tokens sample_builtins sample_config
          (pass_with sample_profile null_liquidity_pair PostOk) initial_state)
     = Inl AttributeError"
  using threshold_comparison_raises by simp

subsection \<open>Chart renderer\<close>












end
